theory Spec2Isabelle
  imports Main "HOL-Library.Sublist"
begin

section \<open>The execution tools of \<^verbatim>\<open>src/tools/basetool.py\<close>\<close>

text \<open>
  The module offers two operations, \<^verbatim>\<open>execute_code\<close> and \<^verbatim>\<open>execute_command\<close>. Both are
  sequences of calls into the host platform: \<^verbatim>\<open>os.makedirs\<close>, \<^verbatim>\<open>os.path\<close>, \<^verbatim>\<open>open\<close>,
  \<^verbatim>\<open>subprocess.run\<close> and a logger. The embedding keeps the control flow of the source
  (the \<^verbatim>\<open>try\<close> block, its handler, the branch on the exit code) and takes the platform as
  an explicit parameter: a record of functions over an explicit host state. Python
  exceptions are values; an operation returns \<open>Inl\<close> when an exception leaves it and
  \<open>Inr\<close> when it returns. The statements the module runs when it is imported (it
  creates the working directory and logs) are not part of the two operations.
\<close>

subsection \<open>Data\<close>

type_synonym path = string

text \<open>
  An exception raised by the platform: the name of its class and the text of \<^verbatim>\<open>str(e)\<close>.
  Every value stands for an instance of a subclass of Python's \<^verbatim>\<open>Exception\<close>.
\<close>

datatype fault = Fault (fault_class: string) (fault_message: string)

text \<open>What \<^verbatim>\<open>subprocess.run\<close> returns once the child has exited.\<close>

record completed_process =
  returncode :: int
  stdout :: string
  stderr :: string

text \<open>
  The exceptions leaving \<^verbatim>\<open>subprocess.run(..., check=True)\<close>: a platform fault, or
  \<^verbatim>\<open>CalledProcessError\<close> carrying the exit code, the command and both captured streams.
\<close>

datatype py_exception =
    Raised fault
  | CalledProcessError int string string string

text \<open>The part of the host that the operations read and change: regular files with their
  text, and the directories that exist.\<close>

record host =
  files :: "path \<rightharpoonup> string"
  dirs :: "path set"

text \<open>
  Modelled from the spec: the logger, made by \<^verbatim>\<open>setup_logger\<close> of the module \<^verbatim>\<open>logger\<close>,
  which is not among the source files. It is a sink for text events with a level, whose
  own failures do not reach the code that logs: a logging call adds one event and does
  nothing else. \<^verbatim>\<open>logger.exception\<close> logs at level ERROR.
\<close>

datatype level = INFO | ERROR

type_synonym log_event = "level \<times> string"

text \<open>The dict returned by \<^verbatim>\<open>execute_code\<close>: string keys, string values.\<close>

type_synonym result_dict = "string \<rightharpoonup> string"

text \<open>
  The platform. \<open>WORKING_DIRECTORY\<close> is the constant imported from \<^verbatim>\<open>load_cfg\<close>;
  \<open>isabs\<close>, \<open>join\<close> and \<open>normpath\<close> are the functions of \<^verbatim>\<open>os.path\<close> (on \<^verbatim>\<open>str\<close> arguments
  they do not raise); the three \<open>_error\<close> fields say when \<^verbatim>\<open>os.makedirs\<close>, \<^verbatim>\<open>open\<close> and
  \<^verbatim>\<open>write\<close>/\<^verbatim>\<open>close\<close> raise in a given host state; \<open>spawn\<close> runs a command line through
  the shell in a directory, waits for the child and gives either a fault or the completed
  process, together with the host state the child leaves behind.
\<close>

record os_env =
  WORKING_DIRECTORY :: path
  isabs :: "path \<Rightarrow> bool"
  join :: "path \<Rightarrow> path \<Rightarrow> path"
  normpath :: "path \<Rightarrow> path"
  makedirs_error :: "path \<Rightarrow> host \<Rightarrow> fault option"
  open_error :: "path \<Rightarrow> host \<Rightarrow> fault option"
  write_error :: "path \<Rightarrow> string \<Rightarrow> host \<Rightarrow> fault option"
  spawn :: "string \<Rightarrow> path \<Rightarrow> host \<Rightarrow> (fault + completed_process) \<times> host"

subsection \<open>Library calls\<close>

text \<open>\<^verbatim>\<open>os.makedirs(d, exist_ok=True)\<close>: raises, or the directory exists afterwards.\<close>

definition os_makedirs :: "os_env \<Rightarrow> path \<Rightarrow> host \<Rightarrow> fault + host" where
  "os_makedirs env d h =
     (case makedirs_error env d h of
        Some e \<Rightarrow> Inl e
      | None \<Rightarrow> Inr (h\<lparr>dirs := insert d (dirs h)\<rparr>))"

text \<open>
  \<^verbatim>\<open>with open(p, 'w', encoding='utf-8') as f: f.write(text)\<close>. Opening in mode \<^verbatim>\<open>'w'\<close>
  creates the file or truncates it; a successful write leaves exactly \<open>text\<close> in it, and
  a write that raises is taken to leave the file empty. The first component is the
  exception that left the block, if any.
\<close>

definition write_text :: "os_env \<Rightarrow> path \<Rightarrow> string \<Rightarrow> host \<Rightarrow> fault option \<times> host" where
  "write_text env p text h =
     (case open_error env p h of
        Some e \<Rightarrow> (Some e, h)
      | None \<Rightarrow>
          (let h1 = h\<lparr>files := (files h)(p \<mapsto> [])\<rparr> in
           case write_error env p text h1 of
             Some e \<Rightarrow> (Some e, h1)
           | None \<Rightarrow> (None, h1\<lparr>files := (files h1)(p \<mapsto> text)\<rparr>)))"

text \<open>\<^verbatim>\<open>subprocess.run(command, shell=True, capture_output=True, text=True, cwd=d)\<close>:
  a non-zero exit code is returned like any other.\<close>

definition subprocess_run ::
  "os_env \<Rightarrow> string \<Rightarrow> path \<Rightarrow> host \<Rightarrow> (fault + completed_process) \<times> host" where
  "subprocess_run env command d h = spawn env command d h"

text \<open>The same call with \<^verbatim>\<open>check=True\<close>: a non-zero exit code raises
  \<^verbatim>\<open>CalledProcessError\<close>.\<close>

definition subprocess_run_check ::
  "os_env \<Rightarrow> string \<Rightarrow> path \<Rightarrow> host \<Rightarrow> (py_exception + completed_process) \<times> host" where
  "subprocess_run_check env command d h =
     (case spawn env command d h of
        (Inl e, h') \<Rightarrow> (Inl (Raised e), h')
      | (Inr cp, h') \<Rightarrow>
          (if returncode cp \<noteq> 0
           then (Inl (CalledProcessError (returncode cp) command (stdout cp) (stderr cp)), h')
           else (Inr cp, h')))"

subsection \<open>\<^verbatim>\<open>execute_code\<close>\<close>

text \<open>Lines 40 to 46: the path the code is written to.\<close>

definition code_file_path :: "os_env \<Rightarrow> string \<Rightarrow> path" where
  "code_file_path env codefile_name =
     normpath env
       (if isabs env codefile_name then codefile_name
        else join env (WORKING_DIRECTORY env) codefile_name)"

text \<open>Line 57: the command line handed to the shell.\<close>

definition python_command :: "path \<Rightarrow> string" where
  "python_command p = ''python '' @ p"

text \<open>The text appended to the output of a successful run (line 76).\<close>

definition completion_hint :: string where
  "completion_hint =
     [CHR 0x0A, CHR 0x0A] @ ''If you have completed all tasks, respond with FINAL ANSWER.''"

text \<open>
  The body of the \<^verbatim>\<open>try\<close> block, lines 36 to 85. It gives: the exception raised or the dict
  returned; the local variable \<^verbatim>\<open>code_file_path\<close> (\<open>None\<close> while it is unbound); the host
  state; the events sent to the logger, in order.
\<close>

definition execute_code_try ::
  "os_env \<Rightarrow> string \<Rightarrow> string \<Rightarrow> host
     \<Rightarrow> (fault + result_dict) \<times> path option \<times> host \<times> log_event list" where
  "execute_code_try env input_code codefile_name h =
     (case os_makedirs env (WORKING_DIRECTORY env) h of
        Inl e \<Rightarrow> (Inl e, None, h, [])
      | Inr h1 \<Rightarrow>
          (let p = code_file_path env codefile_name;
               lg1 = [(INFO, ''Code will be written to file: '' @ p)]
           in case write_text env p input_code h1 of
                (Some e, h2) \<Rightarrow> (Inl e, Some p, h2, lg1)
              | (None, h2) \<Rightarrow>
                  (let command = python_command p;
                       lg2 = lg1 @ [(INFO, ''Code has been written to file: '' @ p),
                                    (INFO, ''Executing command: '' @ command)]
                   in case subprocess_run env command (WORKING_DIRECTORY env) h2 of
                        (Inl e, h3) \<Rightarrow> (Inl e, Some p, h3, lg2)
                      | (Inr result, h3) \<Rightarrow>
                          (let output = stdout result;
                               error_output = stderr result
                           in if returncode result = 0
                              then (Inr [''result'' \<mapsto> ''Code executed successfully'',
                                         ''output'' \<mapsto> output @ completion_hint,
                                         ''file_path'' \<mapsto> p],
                                    Some p, h3,
                                    lg2 @ [(INFO, ''Code executed successfully'')])
                              else (Inr [''result'' \<mapsto> ''Failed to execute'',
                                         ''error'' \<mapsto> error_output,
                                         ''file_path'' \<mapsto> p],
                                    Some p, h3,
                                    lg2 @ [(ERROR, ''Code execution failed: '' @ error_output)])))))"

text \<open>
  The whole function: the \<^verbatim>\<open>try\<close> block with its handler \<^verbatim>\<open>except Exception as e\<close>
  (lines 86 to 92).
\<close>

definition execute_code ::
  "os_env \<Rightarrow> string \<Rightarrow> string \<Rightarrow> host \<Rightarrow> (fault + result_dict) \<times> host \<times> log_event list" where
  "execute_code env input_code codefile_name h =
     (case execute_code_try env input_code codefile_name h of
        (Inr d, bound, h', lg) \<Rightarrow> (Inr d, h', lg)
      | (Inl e, bound, h', lg) \<Rightarrow>
          (Inr [''result'' \<mapsto> ''Error occurred'',
                ''error'' \<mapsto> fault_message e,
                ''file_path'' \<mapsto> (case bound of Some p \<Rightarrow> p | None \<Rightarrow> ''Unknown'')],
           h', lg @ [(ERROR, ''An error occurred while executing code'')]))"

subsection \<open>\<^verbatim>\<open>execute_command\<close>\<close>

text \<open>Lines 109 to 127. Only \<^verbatim>\<open>CalledProcessError\<close> has a handler.\<close>

definition execute_command ::
  "os_env \<Rightarrow> string \<Rightarrow> host \<Rightarrow> (fault + string) \<times> host \<times> log_event list" where
  "execute_command env command h =
     (let lg1 = [(INFO, ''Executing command: '' @ command)]
      in case subprocess_run_check env command (WORKING_DIRECTORY env) h of
           (Inr result, h') \<Rightarrow>
             (Inr (stdout result), h', lg1 @ [(INFO, ''Command executed successfully'')])
         | (Inl (CalledProcessError rc cmd out err), h') \<Rightarrow>
             (Inr (''Error: '' @ err), h', lg1 @ [(ERROR, ''Error executing command: '' @ err)])
         | (Inl (Raised e), h') \<Rightarrow> (Inl e, h', lg1))"

subsection \<open>A POSIX host\<close>

text \<open>
  A concrete platform on which the definitions above can be run: \<^verbatim>\<open>posixpath\<close> of the
  Python standard library for \<^verbatim>\<open>os.path\<close>, the shell's splitting of a command line into
  words, and a small table of child processes.
\<close>

text \<open>\<^verbatim>\<open>posixpath.isabs\<close>: the path starts with a slash.\<close>

definition posix_isabs :: "path \<Rightarrow> bool" where
  "posix_isabs s = (case s of [] \<Rightarrow> False | c # _ \<Rightarrow> c = CHR ''/'')"

text \<open>\<^verbatim>\<open>posixpath.join\<close> of two components.\<close>

definition posix_join :: "path \<Rightarrow> path \<Rightarrow> path" where
  "posix_join a b =
     (if posix_isabs b then b
      else if a = [] \<or> last a = CHR ''/'' then a @ b
      else a @ ''/'' @ b)"

text \<open>\<^verbatim>\<open>str.split(sep)\<close> for a separator of one character: never an empty list.\<close>

fun split_on :: "char \<Rightarrow> string \<Rightarrow> string list" where
  "split_on sep [] = [[]]"
| "split_on sep (c # cs) =
     (if c = sep then [] # split_on sep cs
      else (case split_on sep cs of
              [] \<Rightarrow> [[c]]
            | w # ws \<Rightarrow> (c # w) # ws))"

text \<open>\<^verbatim>\<open>sep.join(comps)\<close>.\<close>

fun join_with :: "string \<Rightarrow> string list \<Rightarrow> string" where
  "join_with sep [] = []"
| "join_with sep [w] = w"
| "join_with sep (w # ws) = w @ sep @ join_with sep ws"

text \<open>
  The loop of \<^verbatim>\<open>posixpath.normpath\<close> over the components: empty ones and \<^verbatim>\<open>.\<close> are
  skipped, \<^verbatim>\<open>..\<close> removes the component before it, unless there is none to remove or the
  one before is itself a kept \<^verbatim>\<open>..\<close>.
\<close>

fun norm_comps :: "nat \<Rightarrow> string list \<Rightarrow> string list \<Rightarrow> string list" where
  "norm_comps initial_slashes new_comps [] = new_comps"
| "norm_comps initial_slashes new_comps (seg # segs) =
     (if seg = [] \<or> seg = ''.'' then norm_comps initial_slashes new_comps segs
      else if seg \<noteq> ''..'' \<or> (initial_slashes = 0 \<and> new_comps = [])
                \<or> (new_comps \<noteq> [] \<and> last new_comps = ''..'')
      then norm_comps initial_slashes (new_comps @ [seg]) segs
      else if new_comps \<noteq> [] then norm_comps initial_slashes (butlast new_comps) segs
      else norm_comps initial_slashes new_comps segs)"

definition posix_normpath :: "path \<Rightarrow> path" where
  "posix_normpath p =
     (if p = [] then ''.''
      else
        (let initial_slashes =
               (if take 1 p = ''/'' then
                  (if take 2 p = ''//'' \<and> take 3 p \<noteq> ''///'' then 2 else 1)
                else (0::nat));
             segs = norm_comps initial_slashes [] (split_on CHR ''/'' p);
             q = replicate initial_slashes CHR ''/'' @ join_with ''/'' segs
         in if q = [] then ''.'' else q))"

text \<open>
  How the shell splits a command line that has no quoting, expansion or operator in it:
  the words are the maximal runs of characters other than space, tab and newline.
\<close>

fun shell_words_from :: "string \<Rightarrow> string \<Rightarrow> string list" where
  "shell_words_from w [] = (if w = [] then [] else [w])"
| "shell_words_from w (c # cs) =
     (if c = CHR '' '' \<or> c = CHR 0x09 \<or> c = CHR 0x0A
      then (if w = [] then shell_words_from [] cs else w # shell_words_from [] cs)
      else shell_words_from (w @ [c]) cs)"

definition shell_words :: "string \<Rightarrow> string list" where
  "shell_words s = shell_words_from [] s"

text \<open>\<^verbatim>\<open>repr\<close> of a file name that needs no escaping: the name between single quotes, as it
  stands in the message of an \<^verbatim>\<open>OSError\<close>.\<close>

definition py_repr :: "string \<Rightarrow> string" where
  "py_repr s = [CHR 0x27] @ s @ [CHR 0x27]"

text \<open>
  The child processes of the sample host. A command line holding a NUL character cannot
  be handed to the operating system: \<^verbatim>\<open>subprocess\<close> raises \<^verbatim>\<open>ValueError\<close>. The interpreter
  opens the file named by its first argument; two programs and two shell commands are
  known, with the streams and exit codes they produce.
\<close>

definition sample_python :: "string list \<Rightarrow> host \<Rightarrow> completed_process" where
  "sample_python args h =
     (case args of
        [] \<Rightarrow> \<lparr>returncode = 0, stdout = [], stderr = []\<rparr>
      | script # _ \<Rightarrow>
          (case files h script of
             None \<Rightarrow>
               \<lparr>returncode = 2, stdout = [],
                stderr = ''python: cannot open file '' @ py_repr script
                           @ '': [Errno 2] No such file or directory'' @ [CHR 0x0A]\<rparr>
           | Some src \<Rightarrow>
               if src = ''print(1+1)''
               then \<lparr>returncode = 0, stdout = ''2'' @ [CHR 0x0A], stderr = []\<rparr>
               else if src = ''raise ValueError(1)''
               then \<lparr>returncode = 1, stdout = [], stderr = ''ValueError: 1'' @ [CHR 0x0A]\<rparr>
               else \<lparr>returncode = 1, stdout = [],
                     stderr = ''SyntaxError: invalid syntax'' @ [CHR 0x0A]\<rparr>))"

definition sample_spawn :: "string \<Rightarrow> path \<Rightarrow> host \<Rightarrow> (fault + completed_process) \<times> host" where
  "sample_spawn command d h =
     (if CHR 0x00 \<in> set command then (Inl (Fault ''ValueError'' ''embedded null byte''), h)
      else if command = ''echo hello''
      then (Inr \<lparr>returncode = 0, stdout = ''hello'' @ [CHR 0x0A], stderr = []\<rparr>, h)
      else if command = ''echo out; echo err >&2; exit 3''
      then (Inr \<lparr>returncode = 3, stdout = ''out'' @ [CHR 0x0A],
                 stderr = ''err'' @ [CHR 0x0A]\<rparr>, h)
      else (case shell_words command of
              [] \<Rightarrow> (Inr \<lparr>returncode = 0, stdout = [], stderr = []\<rparr>, h)
            | prog # args \<Rightarrow>
                if prog = ''python'' then (Inr (sample_python args h), h)
                else (Inr \<lparr>returncode = 127, stdout = [],
                           stderr = ''sh: '' @ prog @ '': not found'' @ [CHR 0x0A]\<rparr>, h)))"

text \<open>
  The sample platform: working directory \<^verbatim>\<open>/work\<close>; \<^verbatim>\<open>os.makedirs\<close> fails when a regular
  file is in the way; \<^verbatim>\<open>open\<close> fails on a directory and on a name holding a NUL character;
  writing never fails.
\<close>

definition sample_env :: os_env where
  "sample_env =
     \<lparr>WORKING_DIRECTORY = ''/work'',
      isabs = posix_isabs,
      join = posix_join,
      normpath = posix_normpath,
      makedirs_error =
        (\<lambda>d h. if d \<in> dom (files h)
                then Some (Fault ''FileExistsError'' (''[Errno 17] File exists: '' @ py_repr d))
                else None),
      open_error =
        (\<lambda>p h. if CHR 0x00 \<in> set p then Some (Fault ''ValueError'' ''embedded null byte'')
                else if p \<in> dirs h
                then Some (Fault ''IsADirectoryError''
                            (''[Errno 21] Is a directory: '' @ py_repr p))
                else None),
      write_error = (\<lambda>p text h. None),
      spawn = sample_spawn\<rparr>"

text \<open>Two host states: an empty one, and one where a regular file sits at \<^verbatim>\<open>/work\<close>.\<close>

definition empty_host :: host where
  "empty_host = \<lparr>files = Map.empty, dirs = {}\<rparr>"

definition blocked_host :: host where
  "blocked_host = \<lparr>files = [''/work'' \<mapsto> ''x''], dirs = {}\<rparr>"


subsection \<open>What the platform did during a call\<close>

text \<open>
  A call of \<^verbatim>\<open>execute_code\<close> asks the platform, in order, to create the directory, to
  open the file, to write it and to run the child. The outcome of a call is the first of
  these that raised, or the completed child process.
\<close>

datatype outcome =
    Makedirs_Raised fault
  | Open_Raised fault
  | Write_Raised fault
  | Run_Raised fault
  | Exited completed_process

definition call_outcome :: "os_env \<Rightarrow> string \<Rightarrow> string \<Rightarrow> host \<Rightarrow> outcome" where
  "call_outcome env input_code codefile_name h =
     (case makedirs_error env (WORKING_DIRECTORY env) h of
        Some e \<Rightarrow> Makedirs_Raised e
      | None \<Rightarrow>
          (let p = code_file_path env codefile_name;
               h1 = h\<lparr>dirs := insert (WORKING_DIRECTORY env) (dirs h)\<rparr>
           in case open_error env p h1 of
                Some e \<Rightarrow> Open_Raised e
              | None \<Rightarrow>
                  (let h2 = h1\<lparr>files := (files h1)(p \<mapsto> [])\<rparr>
                   in case write_error env p input_code h2 of
                        Some e \<Rightarrow> Write_Raised e
                      | None \<Rightarrow>
                          (case fst (spawn env (python_command p) (WORKING_DIRECTORY env)
                                       (h2\<lparr>files := (files h2)(p \<mapsto> input_code)\<rparr>)) of
                             Inl e \<Rightarrow> Run_Raised e
                           | Inr cp \<Rightarrow> Exited cp))))"

text \<open>The dict that belongs to an outcome, for the path \<open>p\<close> (the spec's Result Reducer).\<close>

definition reduce :: "path \<Rightarrow> outcome \<Rightarrow> result_dict" where
  "reduce p out =
     (case out of
        Makedirs_Raised e \<Rightarrow>
          [''result'' \<mapsto> ''Error occurred'', ''error'' \<mapsto> fault_message e,
           ''file_path'' \<mapsto> ''Unknown'']
      | Open_Raised e \<Rightarrow>
          [''result'' \<mapsto> ''Error occurred'', ''error'' \<mapsto> fault_message e,
           ''file_path'' \<mapsto> p]
      | Write_Raised e \<Rightarrow>
          [''result'' \<mapsto> ''Error occurred'', ''error'' \<mapsto> fault_message e,
           ''file_path'' \<mapsto> p]
      | Run_Raised e \<Rightarrow>
          [''result'' \<mapsto> ''Error occurred'', ''error'' \<mapsto> fault_message e,
           ''file_path'' \<mapsto> p]
      | Exited cp \<Rightarrow>
          (if returncode cp = 0
           then [''result'' \<mapsto> ''Code executed successfully'',
                 ''output'' \<mapsto> stdout cp @ completion_hint, ''file_path'' \<mapsto> p]
           else [''result'' \<mapsto> ''Failed to execute'', ''error'' \<mapsto> stderr cp,
                 ''file_path'' \<mapsto> p]))"






section \<open>Properties\<close>

subsection \<open>General facts\<close>

lemma execute_code_reduce:
  "fst (execute_code env input_code codefile_name h)
     = Inr (reduce (code_file_path env codefile_name)
              (call_outcome env input_code codefile_name h))"
  by (simp add: execute_code_def execute_code_try_def call_outcome_def reduce_def Let_def
      os_makedirs_def write_text_def subprocess_run_def
      split: prod.splits sum.splits option.splits)

lemma execute_code_returns:
  "\<exists>d. fst (execute_code env input_code codefile_name h) = Inr d"
  by (simp add: execute_code_reduce)

lemma execute_command_propagates:
  assumes "fst (spawn env command (WORKING_DIRECTORY env) h) = Inl e"
  shows "fst (execute_command env command h) = Inl e"
  using assms
  by (auto simp add: execute_command_def subprocess_run_check_def Let_def split: prod.splits)








subsection \<open>The sample host, evaluated\<close>

lemma sample_wd: "WORKING_DIRECTORY sample_env = ''/work''"
  by (simp add: sample_env_def)

lemma sample_path_code: "code_file_path sample_env ''code.py'' = ''/work/code.py''"
  by (simp add: code_file_path_def sample_env_def posix_isabs_def posix_join_def
      posix_normpath_def)

lemma sample_makedirs:
  "os_makedirs sample_env ''/work'' empty_host = Inr \<lparr>files = Map.empty, dirs = {''/work''}\<rparr>"
  by (simp add: os_makedirs_def sample_env_def empty_host_def)

lemma sample_write:
  "write_text sample_env ''/work/code.py'' text \<lparr>files = Map.empty, dirs = {''/work''}\<rparr>
     = (None, \<lparr>files = [''/work/code.py'' \<mapsto> text], dirs = {''/work''}\<rparr>)"
  by (simp add: write_text_def sample_env_def)

lemma sample_run_print:
  "subprocess_run sample_env (python_command ''/work/code.py'') ''/work''
     \<lparr>files = [''/work/code.py'' \<mapsto> ''print(1+1)''], dirs = {''/work''}\<rparr>
   = (Inr \<lparr>returncode = 0, stdout = ''2'' @ [CHR 0x0A], stderr = []\<rparr>,
      \<lparr>files = [''/work/code.py'' \<mapsto> ''print(1+1)''], dirs = {''/work''}\<rparr>)"
  by (simp add: subprocess_run_def sample_env_def sample_spawn_def python_command_def
      shell_words_def sample_python_def)

lemma sample_run_raise:
  "subprocess_run sample_env (python_command ''/work/code.py'') ''/work''
     \<lparr>files = [''/work/code.py'' \<mapsto> ''raise ValueError(1)''], dirs = {''/work''}\<rparr>
   = (Inr \<lparr>returncode = 1, stdout = [], stderr = ''ValueError: 1'' @ [CHR 0x0A]\<rparr>,
      \<lparr>files = [''/work/code.py'' \<mapsto> ''raise ValueError(1)''], dirs = {''/work''}\<rparr>)"
  by (simp add: subprocess_run_def sample_env_def sample_spawn_def python_command_def
      shell_words_def sample_python_def)

subsection \<open>\<^verbatim>\<open>execute_code\<close>: the child exits\<close>

text \<open>
  Claim C1. When the directory was made, the code was written and the child process
  exited with code 0, \<^verbatim>\<open>execute_code\<close> returns a dict whose \<^verbatim>\<open>result\<close> is the success
  message and whose \<^verbatim>\<open>output\<close> is the captured standard output followed by the completion
  hint, two newlines and \<^verbatim>\<open>If you have completed all tasks, respond with FINAL ANSWER.\<close>;
  so the output ends with that hint.
\<close>

theorem execute_code_success:
  assumes "os_makedirs env (WORKING_DIRECTORY env) h = Inr h1"
      and "write_text env (code_file_path env codefile_name) input_code h1 = (None, h2)"
      and "subprocess_run env (python_command (code_file_path env codefile_name))
             (WORKING_DIRECTORY env) h2 = (Inr result, h3)"
      and "returncode result = 0"
  shows "\<exists>d. fst (execute_code env input_code codefile_name h) = Inr d
           \<and> d ''result'' = Some ''Code executed successfully''
           \<and> d ''output'' = Some (stdout result @ [CHR 0x0A, CHR 0x0A]
                 @ ''If you have completed all tasks, respond with FINAL ANSWER.'')
           \<and> suffix ([CHR 0x0A, CHR 0x0A]
                 @ ''If you have completed all tasks, respond with FINAL ANSWER.'')
                (the (d ''output''))"
  using assms
  by (simp add: execute_code_def execute_code_try_def completion_hint_def suffix_def Let_def)

text \<open>On the sample host, the program \<^verbatim>\<open>print(1+1)\<close> saved as \<^verbatim>\<open>code.py\<close>.\<close>

theorem execute_code_success_witness:
  "os_makedirs sample_env (WORKING_DIRECTORY sample_env) empty_host
      = Inr \<lparr>files = Map.empty, dirs = {''/work''}\<rparr>
   \<and> write_text sample_env (code_file_path sample_env ''code.py'') ''print(1+1)''
        \<lparr>files = Map.empty, dirs = {''/work''}\<rparr>
      = (None, \<lparr>files = [''/work/code.py'' \<mapsto> ''print(1+1)''], dirs = {''/work''}\<rparr>)
   \<and> subprocess_run sample_env (python_command (code_file_path sample_env ''code.py''))
        (WORKING_DIRECTORY sample_env)
        \<lparr>files = [''/work/code.py'' \<mapsto> ''print(1+1)''], dirs = {''/work''}\<rparr>
      = (Inr \<lparr>returncode = 0, stdout = ''2'' @ [CHR 0x0A], stderr = []\<rparr>,
         \<lparr>files = [''/work/code.py'' \<mapsto> ''print(1+1)''], dirs = {''/work''}\<rparr>)
   \<and> (\<exists>d. fst (execute_code sample_env ''print(1+1)'' ''code.py'' empty_host) = Inr d
           \<and> d ''result'' = Some ''Code executed successfully''
           \<and> d ''output'' = Some (''2'' @ [CHR 0x0A, CHR 0x0A, CHR 0x0A]
                 @ ''If you have completed all tasks, respond with FINAL ANSWER.''))"
proof -
  have a: "os_makedirs sample_env (WORKING_DIRECTORY sample_env) empty_host
      = Inr \<lparr>files = Map.empty, dirs = {''/work''}\<rparr>"
    by (simp add: sample_wd sample_makedirs)
  have b: "write_text sample_env (code_file_path sample_env ''code.py'') ''print(1+1)''
        \<lparr>files = Map.empty, dirs = {''/work''}\<rparr>
      = (None, \<lparr>files = [''/work/code.py'' \<mapsto> ''print(1+1)''], dirs = {''/work''}\<rparr>)"
    by (simp add: sample_path_code sample_write)
  have c: "subprocess_run sample_env (python_command (code_file_path sample_env ''code.py''))
        (WORKING_DIRECTORY sample_env)
        \<lparr>files = [''/work/code.py'' \<mapsto> ''print(1+1)''], dirs = {''/work''}\<rparr>
      = (Inr \<lparr>returncode = 0, stdout = ''2'' @ [CHR 0x0A], stderr = []\<rparr>,
         \<lparr>files = [''/work/code.py'' \<mapsto> ''print(1+1)''], dirs = {''/work''}\<rparr>)"
    unfolding sample_path_code sample_wd by (rule sample_run_print)
  from execute_code_success [OF a b c]
  obtain d where "fst (execute_code sample_env ''print(1+1)'' ''code.py'' empty_host) = Inr d"
    and "d ''result'' = Some ''Code executed successfully''"
    and "d ''output'' = Some (''2'' @ [CHR 0x0A, CHR 0x0A, CHR 0x0A]
                 @ ''If you have completed all tasks, respond with FINAL ANSWER.'')"
    by auto
  with a b c show ?thesis by blast
qed

text \<open>
  Claim C4. When the directory was made, the code was written and the child process
  exited with a code other than 0, \<^verbatim>\<open>execute_code\<close> returns (it does not raise) a dict
  whose \<^verbatim>\<open>result\<close> is the failure message, whose \<^verbatim>\<open>error\<close> is the captured standard error,
  and which has no \<^verbatim>\<open>output\<close> key.
\<close>

theorem execute_code_failure:
  assumes "os_makedirs env (WORKING_DIRECTORY env) h = Inr h1"
      and "write_text env (code_file_path env codefile_name) input_code h1 = (None, h2)"
      and "subprocess_run env (python_command (code_file_path env codefile_name))
             (WORKING_DIRECTORY env) h2 = (Inr result, h3)"
      and "returncode result \<noteq> 0"
  shows "\<exists>d. fst (execute_code env input_code codefile_name h) = Inr d
           \<and> d ''result'' = Some ''Failed to execute''
           \<and> d ''error'' = Some (stderr result)
           \<and> d ''output'' = None"
  using assms
  by (simp add: execute_code_def execute_code_try_def Let_def)

text \<open>On the sample host, the program \<^verbatim>\<open>raise ValueError(1)\<close>.\<close>

theorem execute_code_failure_witness:
  "os_makedirs sample_env (WORKING_DIRECTORY sample_env) empty_host
      = Inr \<lparr>files = Map.empty, dirs = {''/work''}\<rparr>
   \<and> write_text sample_env (code_file_path sample_env ''code.py'') ''raise ValueError(1)''
        \<lparr>files = Map.empty, dirs = {''/work''}\<rparr>
      = (None, \<lparr>files = [''/work/code.py'' \<mapsto> ''raise ValueError(1)''],
                dirs = {''/work''}\<rparr>)
   \<and> subprocess_run sample_env (python_command (code_file_path sample_env ''code.py''))
        (WORKING_DIRECTORY sample_env)
        \<lparr>files = [''/work/code.py'' \<mapsto> ''raise ValueError(1)''], dirs = {''/work''}\<rparr>
      = (Inr \<lparr>returncode = 1, stdout = [], stderr = ''ValueError: 1'' @ [CHR 0x0A]\<rparr>,
         \<lparr>files = [''/work/code.py'' \<mapsto> ''raise ValueError(1)''], dirs = {''/work''}\<rparr>)
   \<and> (1::int) \<noteq> 0
   \<and> (\<exists>d. fst (execute_code sample_env ''raise ValueError(1)'' ''code.py'' empty_host) = Inr d
           \<and> d ''result'' = Some ''Failed to execute''
           \<and> d ''error'' = Some (''ValueError: 1'' @ [CHR 0x0A])
           \<and> d ''output'' = None)"
proof -
  have a: "os_makedirs sample_env (WORKING_DIRECTORY sample_env) empty_host
      = Inr \<lparr>files = Map.empty, dirs = {''/work''}\<rparr>"
    by (simp add: sample_wd sample_makedirs)
  have b: "write_text sample_env (code_file_path sample_env ''code.py'') ''raise ValueError(1)''
        \<lparr>files = Map.empty, dirs = {''/work''}\<rparr>
      = (None, \<lparr>files = [''/work/code.py'' \<mapsto> ''raise ValueError(1)''],
                dirs = {''/work''}\<rparr>)"
    by (simp add: sample_path_code sample_write)
  have c: "subprocess_run sample_env (python_command (code_file_path sample_env ''code.py''))
        (WORKING_DIRECTORY sample_env)
        \<lparr>files = [''/work/code.py'' \<mapsto> ''raise ValueError(1)''], dirs = {''/work''}\<rparr>
      = (Inr \<lparr>returncode = 1, stdout = [], stderr = ''ValueError: 1'' @ [CHR 0x0A]\<rparr>,
         \<lparr>files = [''/work/code.py'' \<mapsto> ''raise ValueError(1)''], dirs = {''/work''}\<rparr>)"
    unfolding sample_path_code sample_wd by (rule sample_run_raise)
  from execute_code_failure [OF a b c]
  obtain d where
    "fst (execute_code sample_env ''raise ValueError(1)'' ''code.py'' empty_host) = Inr d"
    and "d ''result'' = Some ''Failed to execute''"
    and "d ''error'' = Some (''ValueError: 1'' @ [CHR 0x0A])"
    and "d ''output'' = None"
    by auto
  moreover have "(1::int) \<noteq> 0" by simp
  ultimately show ?thesis using a b c by blast
qed

subsection \<open>\<^verbatim>\<open>execute_command\<close>: the child exits\<close>

text \<open>
  Claim C5. When the child process of \<^verbatim>\<open>execute_command\<close> exits with code 0, the value
  returned is exactly the captured standard output.
\<close>

theorem execute_command_success:
  assumes "spawn env command (WORKING_DIRECTORY env) h = (Inr result, h')"
      and "returncode result = 0"
  shows "fst (execute_command env command h) = Inr (stdout result)"
  using assms
  by (simp add: execute_command_def subprocess_run_check_def Let_def)

text \<open>On the sample host, the command \<^verbatim>\<open>echo hello\<close>.\<close>

theorem execute_command_success_witness:
  "spawn sample_env ''echo hello'' (WORKING_DIRECTORY sample_env) empty_host
     = (Inr \<lparr>returncode = 0, stdout = ''hello'' @ [CHR 0x0A], stderr = []\<rparr>, empty_host)
   \<and> fst (execute_command sample_env ''echo hello'' empty_host)
     = Inr (''hello'' @ [CHR 0x0A])"
proof -
  have a: "spawn sample_env ''echo hello'' (WORKING_DIRECTORY sample_env) empty_host
     = (Inr \<lparr>returncode = 0, stdout = ''hello'' @ [CHR 0x0A], stderr = []\<rparr>, empty_host)"
    by (simp add: sample_env_def sample_spawn_def)
  from a execute_command_success [OF a] show ?thesis by simp
qed

text \<open>
  Claim C6. When the child process of \<^verbatim>\<open>execute_command\<close> exits with a code other than 0,
  the value returned is exactly \<^verbatim>\<open>Error: \<close> followed by the captured standard error. The
  captured standard output has no part in it: whatever the child had printed there, the
  value is the same.
\<close>

theorem execute_command_failure:
  assumes "spawn env command (WORKING_DIRECTORY env) h = (Inr result, h')"
      and "returncode result \<noteq> 0"
  shows "fst (execute_command env command h) = Inr (''Error: '' @ stderr result)
         \<and> (\<forall>out. fst (execute_command
                         (env\<lparr>spawn := \<lambda>c d s. (Inr (result\<lparr>stdout := out\<rparr>), h')\<rparr>)
                         command h)
                    = Inr (''Error: '' @ stderr result))"
  using assms
  by (simp add: execute_command_def subprocess_run_check_def Let_def)

text \<open>On the sample host, a command that prints on both streams and exits with 3.\<close>

theorem execute_command_failure_witness:
  "spawn sample_env ''echo out; echo err >&2; exit 3'' (WORKING_DIRECTORY sample_env) empty_host
     = (Inr \<lparr>returncode = 3, stdout = ''out'' @ [CHR 0x0A], stderr = ''err'' @ [CHR 0x0A]\<rparr>,
        empty_host)
   \<and> (3::int) \<noteq> 0
   \<and> fst (execute_command sample_env ''echo out; echo err >&2; exit 3'' empty_host)
     = Inr (''Error: err'' @ [CHR 0x0A])"
proof -
  have a: "spawn sample_env ''echo out; echo err >&2; exit 3''
             (WORKING_DIRECTORY sample_env) empty_host
     = (Inr \<lparr>returncode = 3, stdout = ''out'' @ [CHR 0x0A], stderr = ''err'' @ [CHR 0x0A]\<rparr>,
        empty_host)"
    by (simp add: sample_env_def sample_spawn_def)
  from a execute_command_failure [OF a] show ?thesis by simp
qed

subsection \<open>\<^verbatim>\<open>execute_code\<close>: the resolved path\<close>

text \<open>
  Claim C3. The path \<^verbatim>\<open>execute_code\<close> works with is \<^verbatim>\<open>normpath(codefile_name)\<close> when the
  name is absolute and \<^verbatim>\<open>normpath(join(WORKING_DIRECTORY, codefile_name))\<close> when it is
  relative. The path is observed where the function uses it: it is the \<^verbatim>\<open>file_path\<close> of
  the returned dict in every call that got as far as resolving it (the directory was
  made), it is the file that is opened, and it is the argument of the command line. For
  an absolute name the working directory does not occur in it.
\<close>

theorem execute_code_resolved_path:
  assumes "makedirs_error env (WORKING_DIRECTORY env) h = None"
  shows "(\<exists>d. fst (execute_code env input_code codefile_name h) = Inr d
            \<and> d ''file_path'' =
                Some (if isabs env codefile_name then normpath env codefile_name
                      else normpath env (join env (WORKING_DIRECTORY env) codefile_name)))
         \<and> code_file_path env codefile_name =
             (if isabs env codefile_name then normpath env codefile_name
              else normpath env (join env (WORKING_DIRECTORY env) codefile_name))
         \<and> (\<forall>wd. isabs env codefile_name \<longrightarrow>
                code_file_path (env\<lparr>WORKING_DIRECTORY := wd\<rparr>) codefile_name
                  = normpath env codefile_name)"
proof -
  have "\<forall>e. call_outcome env input_code codefile_name h \<noteq> Makedirs_Raised e"
    using assms by (simp add: call_outcome_def Let_def split: option.splits sum.splits)
  then have "reduce (code_file_path env codefile_name)
               (call_outcome env input_code codefile_name h) ''file_path''
             = Some (code_file_path env codefile_name)"
    by (cases "call_outcome env input_code codefile_name h") (auto simp add: reduce_def)
  then show ?thesis
    by (simp add: execute_code_reduce code_file_path_def)
qed

text \<open>On the sample host: an absolute name and a relative one, both with redundant
  segments.\<close>

theorem execute_code_resolved_path_witness:
  "makedirs_error sample_env (WORKING_DIRECTORY sample_env) empty_host = None
   \<and> isabs sample_env ''/tmp/x/../y.py''
   \<and> (\<exists>d. fst (execute_code sample_env ''print(1+1)'' ''/tmp/x/../y.py'' empty_host) = Inr d
          \<and> d ''file_path'' = Some ''/tmp/y.py'')
   \<and> code_file_path (sample_env\<lparr>WORKING_DIRECTORY := ''/elsewhere''\<rparr>) ''/tmp/x/../y.py''
       = ''/tmp/y.py''
   \<and> (\<exists>d. fst (execute_code sample_env ''print(1+1)'' ''./sub/../code.py'' empty_host) = Inr d
          \<and> d ''file_path'' = Some ''/work/code.py'')"
proof -
  have mk: "makedirs_error sample_env (WORKING_DIRECTORY sample_env) empty_host = None"
    by (simp add: sample_env_def empty_host_def)
  have abs: "isabs sample_env ''/tmp/x/../y.py''"
    by (simp add: sample_env_def posix_isabs_def)
  have rel: "\<not> isabs sample_env ''./sub/../code.py''"
    by (simp add: sample_env_def posix_isabs_def)
  have n1: "normpath sample_env ''/tmp/x/../y.py'' = ''/tmp/y.py''"
    by (simp add: sample_env_def posix_normpath_def)
  have n2: "normpath sample_env (join sample_env (WORKING_DIRECTORY sample_env)
              ''./sub/../code.py'') = ''/work/code.py''"
    by (simp add: sample_env_def posix_normpath_def posix_join_def posix_isabs_def)
  note one = execute_code_resolved_path [OF mk, of "''print(1+1)''" "''/tmp/x/../y.py''"]
  note two = execute_code_resolved_path [OF mk, of "''print(1+1)''" "''./sub/../code.py''"]
  from one abs n1
  have a: "\<exists>d. fst (execute_code sample_env ''print(1+1)'' ''/tmp/x/../y.py'' empty_host) = Inr d
          \<and> d ''file_path'' = Some ''/tmp/y.py''"
    by simp
  from one abs n1
  have b: "code_file_path (sample_env\<lparr>WORKING_DIRECTORY := ''/elsewhere''\<rparr>)
             ''/tmp/x/../y.py'' = ''/tmp/y.py''"
    by simp
  from two rel n2
  have c: "\<exists>d. fst (execute_code sample_env ''print(1+1)'' ''./sub/../code.py'' empty_host)
               = Inr d \<and> d ''file_path'' = Some ''/work/code.py''"
    by simp
  from mk abs a b c show ?thesis by blast
qed

subsection \<open>\<^verbatim>\<open>execute_code\<close>: the shape of the result\<close>

text \<open>
  Claim C10. Whatever happens, \<^verbatim>\<open>execute_code\<close> returns a dict. Its keys are either
  \<^verbatim>\<open>result\<close>, \<^verbatim>\<open>output\<close>, \<^verbatim>\<open>file_path\<close>, and then it reports success, or \<^verbatim>\<open>result\<close>,
  \<^verbatim>\<open>error\<close>, \<^verbatim>\<open>file_path\<close>, and then it reports a failed run or a caught exception. So
  \<^verbatim>\<open>result\<close> and \<^verbatim>\<open>file_path\<close> are always there, and exactly one of \<^verbatim>\<open>output\<close> and
  \<^verbatim>\<open>error\<close>.
\<close>

theorem execute_code_result_keys:
  "\<exists>d. fst (execute_code env input_code codefile_name h) = Inr d
     \<and> ((dom d = {''result'', ''output'', ''file_path''}
           \<and> d ''result'' = Some ''Code executed successfully'')
        \<or> (dom d = {''result'', ''error'', ''file_path''}
           \<and> (d ''result'' = Some ''Failed to execute''
               \<or> d ''result'' = Some ''Error occurred'')))"
  by (cases "call_outcome env input_code codefile_name h")
    (auto simp add: execute_code_reduce reduce_def)

subsection \<open>\<^verbatim>\<open>execute_code\<close>: a fault before the child exits\<close>

text \<open>
  Claim C7, as the spec words it, names the sentinel \<^verbatim>\<open>unknown\<close>. On the sample host with
  a regular file in the place of the working directory, \<^verbatim>\<open>os.makedirs\<close> raises before
  the path is resolved (the local variable is unbound), and the \<^verbatim>\<open>file_path\<close> returned is
  \<^verbatim>\<open>Unknown\<close>, with a capital letter: a dict holding \<^verbatim>\<open>unknown\<close> is not what is returned.
\<close>

theorem execute_code_sentinel_counterexample:
  "fst (execute_code_try sample_env ''print(1+1)'' ''code.py'' blocked_host)
     = Inl (Fault ''FileExistsError'' (''[Errno 17] File exists: '' @ py_repr ''/work''))
   \<and> fst (snd (execute_code_try sample_env ''print(1+1)'' ''code.py'' blocked_host)) = None
   \<and> fst (execute_code sample_env ''print(1+1)'' ''code.py'' blocked_host)
     = Inr [''result'' \<mapsto> ''Error occurred'',
            ''error'' \<mapsto> (''[Errno 17] File exists: '' @ py_repr ''/work''),
            ''file_path'' \<mapsto> ''Unknown'']
   \<and> fst (execute_code sample_env ''print(1+1)'' ''code.py'' blocked_host)
     \<noteq> Inr [''result'' \<mapsto> ''Error occurred'',
            ''error'' \<mapsto> (''[Errno 17] File exists: '' @ py_repr ''/work''),
            ''file_path'' \<mapsto> ''unknown'']"
proof -
  have t: "execute_code_try sample_env ''print(1+1)'' ''code.py'' blocked_host
      = (Inl (Fault ''FileExistsError'' (''[Errno 17] File exists: '' @ py_repr ''/work'')), None,
         blocked_host, [])"
    by (simp add: execute_code_try_def os_makedirs_def sample_env_def blocked_host_def)
  have r: "fst (execute_code sample_env ''print(1+1)'' ''code.py'' blocked_host)
      = Inr [''result'' \<mapsto> ''Error occurred'',
             ''error'' \<mapsto> (''[Errno 17] File exists: '' @ py_repr ''/work''),
             ''file_path'' \<mapsto> ''Unknown'']"
    by (simp add: execute_code_def t)
  have "[''result'' \<mapsto> ''Error occurred'',
         ''error'' \<mapsto> (''[Errno 17] File exists: '' @ py_repr ''/work''),
         ''file_path'' \<mapsto> ''Unknown''] ''file_path''
      \<noteq> [''result'' \<mapsto> ''Error occurred'',
         ''error'' \<mapsto> (''[Errno 17] File exists: '' @ py_repr ''/work''),
         ''file_path'' \<mapsto> ''unknown''] ''file_path''"
    by simp
  then have "[''result'' \<mapsto> ''Error occurred'',
         ''error'' \<mapsto> (''[Errno 17] File exists: '' @ py_repr ''/work''),
         ''file_path'' \<mapsto> ''Unknown'']
      \<noteq> [''result'' \<mapsto> ''Error occurred'',
         ''error'' \<mapsto> (''[Errno 17] File exists: '' @ py_repr ''/work''),
         ''file_path'' \<mapsto> ''unknown'']"
    by metis
  with t r show ?thesis by simp
qed

text \<open>
  Claim C7, amended: the sentinel is \<^verbatim>\<open>Unknown\<close>. When an exception leaves the \<^verbatim>\<open>try\<close>
  block, \<^verbatim>\<open>execute_code\<close> returns a dict whose \<^verbatim>\<open>result\<close> is \<^verbatim>\<open>Error occurred\<close>, whose
  \<^verbatim>\<open>error\<close> is the message of the exception, and whose \<^verbatim>\<open>file_path\<close> is the resolved path
  when the path had been resolved before the exception (it was not \<^verbatim>\<open>os.makedirs\<close> that
  raised) and the string \<^verbatim>\<open>Unknown\<close> otherwise.
\<close>

theorem execute_code_internal_error:
  assumes "fst (execute_code_try env input_code codefile_name h) = Inl e"
  shows "\<exists>d. fst (execute_code env input_code codefile_name h) = Inr d
           \<and> d ''result'' = Some ''Error occurred''
           \<and> d ''error'' = Some (fault_message e)
           \<and> d ''file_path'' =
               Some (if makedirs_error env (WORKING_DIRECTORY env) h = None
                     then code_file_path env codefile_name else ''Unknown'')"
  using assms
  by (auto simp add: execute_code_def execute_code_try_def Let_def os_makedirs_def
      split: prod.splits sum.splits option.splits if_splits)

text \<open>On the sample host, an empty file name: the resolved path is the working directory
  itself, and \<^verbatim>\<open>open\<close> raises on a directory.\<close>

theorem execute_code_internal_error_witness:
  "fst (execute_code_try sample_env ''print(1+1)'' [] empty_host)
     = Inl (Fault ''IsADirectoryError'' (''[Errno 21] Is a directory: '' @ py_repr ''/work''))
   \<and> (\<exists>d. fst (execute_code sample_env ''print(1+1)'' [] empty_host) = Inr d
          \<and> d ''result'' = Some ''Error occurred''
          \<and> d ''error'' = Some (''[Errno 21] Is a directory: '' @ py_repr ''/work'')
          \<and> d ''file_path'' = Some ''/work'')"
proof -
  have p: "code_file_path sample_env [] = ''/work''"
    by (simp add: code_file_path_def sample_env_def posix_isabs_def posix_join_def
        posix_normpath_def)
  have mk: "makedirs_error sample_env (WORKING_DIRECTORY sample_env) empty_host = None"
    by (simp add: sample_env_def empty_host_def)
  have wr: "write_text sample_env ''/work'' ''print(1+1)''
              \<lparr>files = Map.empty, dirs = {''/work''}\<rparr>
      = (Some (Fault ''IsADirectoryError'' (''[Errno 21] Is a directory: '' @ py_repr ''/work'')),
         \<lparr>files = Map.empty, dirs = {''/work''}\<rparr>)"
    by (simp add: write_text_def sample_env_def)
  have a: "fst (execute_code_try sample_env ''print(1+1)'' [] empty_host)
     = Inl (Fault ''IsADirectoryError'' (''[Errno 21] Is a directory: '' @ py_repr ''/work''))"
    by (simp add: execute_code_try_def sample_wd sample_makedirs p wr Let_def)
  from execute_code_internal_error [OF a] mk p
  have "\<exists>d. fst (execute_code sample_env ''print(1+1)'' [] empty_host) = Inr d
          \<and> d ''result'' = Some ''Error occurred''
          \<and> d ''error'' = Some (''[Errno 21] Is a directory: '' @ py_repr ''/work'')
          \<and> d ''file_path'' = Some ''/work''"
    by simp
  with a show ?thesis by blast
qed

subsection \<open>\<^verbatim>\<open>execute_command\<close>: a fault that is not an exit code\<close>

text \<open>
  Claim C2 says that no exception leaves either operation. For \<^verbatim>\<open>execute_code\<close> that
  holds (\<open>execute_code_returns\<close>). \<^verbatim>\<open>execute_command\<close> has a handler for
  \<^verbatim>\<open>CalledProcessError\<close> only: any other exception of \<^verbatim>\<open>subprocess.run\<close> leaves it
  (\<open>execute_command_propagates\<close>). On the sample host, a command line that holds a NUL
  character makes \<^verbatim>\<open>subprocess.run\<close> raise \<^verbatim>\<open>ValueError\<close>; \<^verbatim>\<open>execute_command\<close> raises it to
  its caller, where \<^verbatim>\<open>execute_code\<close>, asked to write to a file name with a NUL character,
  returns a dict.
\<close>

theorem execute_command_fault_escapes:
  "fst (execute_command sample_env (''echo a'' @ [CHR 0x00] @ ''b'') empty_host)
     = Inl (Fault ''ValueError'' ''embedded null byte'')
   \<and> fst (execute_code sample_env ''print(1+1)'' (''a'' @ [CHR 0x00] @ ''b'') empty_host)
     = Inr [''result'' \<mapsto> ''Error occurred'',
            ''error'' \<mapsto> ''embedded null byte'',
            ''file_path'' \<mapsto> ''/work/a'' @ [CHR 0x00] @ ''b'']"
proof -
  have "fst (spawn sample_env (''echo a'' @ [CHR 0x00] @ ''b'') (WORKING_DIRECTORY sample_env)
               empty_host)
      = Inl (Fault ''ValueError'' ''embedded null byte'')"
    by (simp add: sample_env_def sample_spawn_def)
  then have a: "fst (execute_command sample_env (''echo a'' @ [CHR 0x00] @ ''b'') empty_host)
      = Inl (Fault ''ValueError'' ''embedded null byte'')"
    by (rule execute_command_propagates)
  have p: "code_file_path sample_env (''a'' @ [CHR 0x00] @ ''b'') = ''/work/a'' @ [CHR 0x00] @ ''b''"
    by (simp add: code_file_path_def sample_env_def posix_isabs_def posix_join_def
        posix_normpath_def)
  have "call_outcome sample_env ''print(1+1)'' (''a'' @ [CHR 0x00] @ ''b'') empty_host
      = Open_Raised (Fault ''ValueError'' ''embedded null byte'')"
    unfolding call_outcome_def p by (simp add: sample_env_def empty_host_def)
  with p have b: "fst (execute_code sample_env ''print(1+1)'' (''a'' @ [CHR 0x00] @ ''b'')
                  empty_host)
      = Inr [''result'' \<mapsto> ''Error occurred'',
             ''error'' \<mapsto> ''embedded null byte'',
             ''file_path'' \<mapsto> ''/work/a'' @ [CHR 0x00] @ ''b'']"
    by (simp add: execute_code_reduce reduce_def)
  from a b show ?thesis by simp
qed

subsection \<open>\<^verbatim>\<open>execute_code\<close>: the command line\<close>

text \<open>
  Claim C8 says that the interpreter receives the resolved path as its only argument,
  also when the path has a space in it. The command line is the word \<^verbatim>\<open>python\<close>, a space
  and the path, unquoted, and it goes through the shell. On the sample host, for the file
  name \<^verbatim>\<open>my code.py\<close>: the code is written to \<^verbatim>\<open>/work/my code.py\<close>, the shell splits the
  command line into three words, the interpreter is given the two arguments \<^verbatim>\<open>/work/my\<close>
  and \<^verbatim>\<open>code.py\<close>, finds no such file, and the call reports a failed run of a program that
  never ran.
\<close>

theorem execute_code_spaced_path:
  "python_command (code_file_path sample_env ''my code.py'') = ''python /work/my code.py''
   \<and> shell_words (python_command (code_file_path sample_env ''my code.py''))
     = [''python'', ''/work/my'', ''code.py'']
   \<and> files (fst (snd (execute_code sample_env ''print(1+1)'' ''my code.py'' empty_host)))
         ''/work/my code.py'' = Some ''print(1+1)''
   \<and> fst (execute_code sample_env ''print(1+1)'' ''my code.py'' empty_host)
     = Inr [''result'' \<mapsto> ''Failed to execute'',
            ''error'' \<mapsto> (''python: cannot open file '' @ py_repr ''/work/my''
                 @ '': [Errno 2] No such file or directory'' @ [CHR 0x0A]),
            ''file_path'' \<mapsto> ''/work/my code.py'']"
proof -
  have p: "code_file_path sample_env ''my code.py'' = ''/work/my code.py''"
    by (simp add: code_file_path_def sample_env_def posix_isabs_def posix_join_def
        posix_normpath_def)
  have c: "python_command ''/work/my code.py'' = ''python /work/my code.py''"
    by (simp add: python_command_def)
  have w: "shell_words ''python /work/my code.py'' = [''python'', ''/work/my'', ''code.py'']"
    by (simp add: shell_words_def)
  have wr: "write_text sample_env ''/work/my code.py'' ''print(1+1)''
              \<lparr>files = Map.empty, dirs = {''/work''}\<rparr>
      = (None, \<lparr>files = [''/work/my code.py'' \<mapsto> ''print(1+1)''], dirs = {''/work''}\<rparr>)"
    by (simp add: write_text_def sample_env_def)
  have sp: "subprocess_run sample_env ''python /work/my code.py'' ''/work''
              \<lparr>files = [''/work/my code.py'' \<mapsto> ''print(1+1)''], dirs = {''/work''}\<rparr>
      = (Inr \<lparr>returncode = 2, stdout = [],
               stderr = (''python: cannot open file '' @ py_repr ''/work/my''
                 @ '': [Errno 2] No such file or directory'' @ [CHR 0x0A])\<rparr>,
         \<lparr>files = [''/work/my code.py'' \<mapsto> ''print(1+1)''], dirs = {''/work''}\<rparr>)"
    by (simp add: subprocess_run_def sample_env_def sample_spawn_def w sample_python_def)
  have t: "execute_code_try sample_env ''print(1+1)'' ''my code.py'' empty_host
      = (Inr [''result'' \<mapsto> ''Failed to execute'',
              ''error'' \<mapsto> (''python: cannot open file '' @ py_repr ''/work/my''
                 @ '': [Errno 2] No such file or directory'' @ [CHR 0x0A]),
              ''file_path'' \<mapsto> ''/work/my code.py''],
         Some ''/work/my code.py'',
         \<lparr>files = [''/work/my code.py'' \<mapsto> ''print(1+1)''], dirs = {''/work''}\<rparr>,
         [(INFO, ''Code will be written to file: /work/my code.py''),
          (INFO, ''Code has been written to file: /work/my code.py''),
          (INFO, ''Executing command: python /work/my code.py''),
          (ERROR, ''Code execution failed: python: cannot open file '' @ py_repr ''/work/my''
                 @ '': [Errno 2] No such file or directory'' @ [CHR 0x0A])])"
    by (simp add: execute_code_try_def sample_wd sample_makedirs p wr c sp Let_def)
  show ?thesis
    by (simp add: p c w execute_code_def t)
qed

subsection \<open>\<^verbatim>\<open>execute_code\<close>: calling twice\<close>




text \<open>On the sample host, the three kinds of result of claim C10.\<close>

theorem execute_code_result_keys_witness:
  "(\<exists>d. fst (execute_code sample_env ''print(1+1)'' ''code.py'' empty_host) = Inr d
       \<and> ((dom d = {''result'', ''output'', ''file_path''}
             \<and> d ''result'' = Some ''Code executed successfully'')
          \<or> (dom d = {''result'', ''error'', ''file_path''}
             \<and> (d ''result'' = Some ''Failed to execute''
                 \<or> d ''result'' = Some ''Error occurred''))))
   \<and> (\<exists>d. fst (execute_code sample_env ''print(1+1)'' ''code.py'' blocked_host) = Inr d
       \<and> ((dom d = {''result'', ''output'', ''file_path''}
             \<and> d ''result'' = Some ''Code executed successfully'')
          \<or> (dom d = {''result'', ''error'', ''file_path''}
             \<and> (d ''result'' = Some ''Failed to execute''
                 \<or> d ''result'' = Some ''Error occurred''))))"
  using execute_code_result_keys [of sample_env "''print(1+1)''" "''code.py''" empty_host]
    execute_code_result_keys [of sample_env "''print(1+1)''" "''code.py''" blocked_host]
  by blast

end
